theory Spec2Isabelle
  imports Main "HOL-Library.Sublist"
begin

section \<open>Data model\<close>

text \<open>
  The Telegram message as the interface \<open>TelegramMessage\<close> declares it. An optional
  field \<open>f?: T\<close> is a \<open>T option\<close>, \<open>None\<close> being \<open>undefined\<close>. The numbers \<open>message_id\<close>,
  \<open>date\<close> and \<open>duration\<close> are integers, as Telegram sends them. The field \<open>from\<close> is
  named \<open>sender\<close> and \<open>text\<close> is named \<open>msg_text\<close>, both being reserved words here.
  Latitude and longitude are kept as their decimal renderings, the only way the code
  reads them (\<open>toString()\<close>). The elements of \<open>photo\<close> and the value of \<open>video\<close> (declared
  \<open>any\<close>) are objects whose content the code never reads. Strings are lists of
  characters.
\<close>

record tg_user =
  user_id :: int
  first_name :: "string option"
  last_name :: "string option"
  user_username :: "string option"

record tg_chat =
  chat_id :: int
  chat_type :: string
  chat_title :: "string option"
  chat_username :: "string option"

datatype photo_size = PhotoSize

record tg_document =
  file_name :: "string option"

record tg_audio =
  audio_title :: "string option"
  audio_duration :: "int option"

record tg_voice =
  voice_duration :: int

datatype tg_video = Video

record tg_sticker =
  emoji :: "string option"

record tg_location =
  latitude :: string
  longitude :: string

record TelegramMessage =
  message_id :: int
  sender :: "tg_user option"
  chat :: tg_chat
  date :: int
  msg_text :: "string option"
  caption :: "string option"
  photo :: "photo_size list option"
  document :: "tg_document option"
  audio :: "tg_audio option"
  voice :: "tg_voice option"
  video :: "tg_video option"
  sticker :: "tg_sticker option"
  location :: "tg_location option"

record template_set =
  titleTemplate :: string
  metadataTemplate :: string
  textMessageTemplate :: string
  photoTemplate :: string
  documentTemplate :: string
  audioTemplate :: string
  voiceTemplate :: string
  videoTemplate :: string
  stickerTemplate :: string
  locationTemplate :: string
  unknownTemplate :: string

record TelegramSyncSettings =
  botToken :: string
  folderPath :: string
  includeMetadata :: bool
  supportCommands :: bool
  templates :: template_set

definition nl :: string where
  "nl = [CHR 0x0A]"

definition DEFAULT_TEMPLATES :: template_set where
  "DEFAULT_TEMPLATES = \<lparr>
     titleTemplate = ''# Telegram Message'',
     metadataTemplate = ''- **From**: {{from}}'' @ nl @ ''- **Date**: {{date}}'' @ nl
        @ ''- **Chat**: {{chat}}'',
     textMessageTemplate = ''## Message'' @ nl @ nl @ ''{{text}}'',
     photoTemplate = ''## Photo'' @ nl @ nl @ ''*[Photo message received]*'' @ nl @ nl
        @ ''Caption: {{caption}}'',
     documentTemplate = ''## Document'' @ nl @ nl @ ''*[Document received]*'' @ nl @ nl
        @ ''Filename: {{filename}}'',
     audioTemplate = ''## Audio'' @ nl @ nl @ ''*[Audio message received]*'' @ nl @ nl
        @ ''Title: {{title}}'',
     voiceTemplate = ''## Voice Message'' @ nl @ nl @ ''*[Voice message received]*'' @ nl @ nl
        @ ''Duration: {{duration}} seconds'',
     videoTemplate = ''## Video'' @ nl @ nl @ ''*[Video message received]*'' @ nl @ nl
        @ ''Caption: {{caption}}'',
     stickerTemplate = ''## Sticker'' @ nl @ nl @ ''*[Sticker received]*'' @ nl @ nl
        @ ''Emoji: {{emoji}}'',
     locationTemplate = ''## Location'' @ nl @ nl @ ''*[Location shared]*'' @ nl @ nl
        @ ''Latitude: {{latitude}}'' @ nl @ ''Longitude: {{longitude}}'',
     unknownTemplate = ''## Unknown Message Type'' @ nl @ nl
        @ ''*[Unsupported message type received]*'' \<rparr>"

definition DEFAULT_SETTINGS :: TelegramSyncSettings where
  "DEFAULT_SETTINGS = \<lparr>
     botToken = '''',
     folderPath = ''Telegram'',
     includeMetadata = True,
     supportCommands = True,
     templates = DEFAULT_TEMPLATES \<rparr>"

section \<open>JavaScript primitives the code relies on\<close>

text \<open>
  Truthiness of an optional string: \<open>undefined\<close> and the empty string are falsy, every
  other string is truthy. An optional object or array is truthy exactly when present.
\<close>

definition truthy_str :: "string option \<Rightarrow> bool" where
  "truthy_str v = (case v of None \<Rightarrow> False | Some s \<Rightarrow> s \<noteq> [])"

definition truthy_obj :: "'a option \<Rightarrow> bool" where
  "truthy_obj v = (case v of None \<Rightarrow> False | Some _ \<Rightarrow> True)"

text \<open>\<open>v || d\<close> on an optional string \<open>v\<close> and a string \<open>d\<close>.\<close>

definition or_else :: "string option \<Rightarrow> string \<Rightarrow> string" where
  "or_else v d = (case v of None \<Rightarrow> d | Some s \<Rightarrow> if s = [] then d else s)"

text \<open>
  Decimal rendering of an integer, as \<open>Number.prototype.toString\<close> gives it:
  \<open>decimal\<close> writes a number that is not negative, most significant digit first.
\<close>

definition digit_char :: "int \<Rightarrow> char" where
  "digit_char d = ''0123456789'' ! nat (d mod 10)"

function decimal :: "int \<Rightarrow> string" where
  "decimal n = (if n < 10 then [digit_char n] else decimal (n div 10) @ [digit_char n])"
  by pat_completeness auto
termination
  by (relation "measure nat") auto

declare decimal.simps [simp del]

definition int_to_string :: "int \<Rightarrow> string" where
  "int_to_string i = (if i < 0 then CHR ''-'' # decimal (- i) else decimal i)"

section \<open>Template engine\<close>

text \<open>
  \<open>processTemplate\<close> is
  \<open>template.replace(/\{\{(\w+)\}\}/g, (match, key) => variables[key] || match)\<close>.
  The class \<open>\w\<close> is \<open>[A-Za-z0-9_]\<close>. \<open>match_marker s\<close> tries the pattern at the
  start of \<open>s\<close>: two opening braces, the longest non-empty run of word characters (the
  quantifier is greedy, and giving characters back cannot help, since a word character
  is not a closing brace), two closing braces. It returns the captured key and the
  text after the match. The global replace scans from the left: at a match the
  replacement is emitted and the scan resumes after the match; otherwise one
  character is copied. The variables are a map: \<open>variables key\<close> is the result of the
  lookup \<open>variables[key]\<close>, \<open>None\<close> when it is \<open>undefined\<close> and, by the declared type
  \<open>Record<string, string>\<close>, a string otherwise.
\<close>

definition is_word_char :: "char \<Rightarrow> bool" where
  "is_word_char c =
     (c \<in> set ''abcdefghijklmnopqrstuvwxyzABCDEFGHIJKLMNOPQRSTUVWXYZ0123456789_'')"

definition match_marker :: "string \<Rightarrow> (string \<times> string) option" where
  "match_marker s =
     (if take 2 s = ''{{'' then
        (let key = takeWhile is_word_char (drop 2 s);
             rest = dropWhile is_word_char (drop 2 s)
         in if key \<noteq> [] \<and> take 2 rest = ''}}'' then Some (key, drop 2 rest) else None)
      else None)"

definition marker :: "string \<Rightarrow> string" where
  "marker key = ''{{'' @ key @ ''}}''"

definition replacement :: "(string \<rightharpoonup> string) \<Rightarrow> string \<Rightarrow> string" where
  "replacement variables key = or_else (variables key) (marker key)"

function processTemplate :: "string \<Rightarrow> (string \<rightharpoonup> string) \<Rightarrow> string" where
  "processTemplate [] variables = []"
| "processTemplate (c # cs) variables =
     (case match_marker (c # cs) of
        Some (key, rest) \<Rightarrow> replacement variables key @ processTemplate rest variables
      | None \<Rightarrow> c # processTemplate cs variables)"
  by pat_completeness auto
termination
proof (relation "measure (\<lambda>(s, v). length s)")
  show "wf (measure (\<lambda>(s, v). length s))" by simp
next
  fix c :: char and cs :: string and variables :: "string \<rightharpoonup> string"
    and x2 :: "string \<times> string" and key rest :: string
  assume "match_marker (c # cs) = Some x2" and "(key, rest) = x2"
  then have "rest = drop 2 (dropWhile is_word_char (drop 2 (c # cs)))"
    by (auto simp: match_marker_def Let_def split: if_splits)
  moreover have "length (dropWhile is_word_char (drop 2 (c # cs))) \<le> length (drop 2 (c # cs))"
    by (rule length_dropWhile_le)
  ultimately have "length rest \<le> length cs"
    by simp
  then show "((rest, variables), (c # cs, variables)) \<in> measure (\<lambda>(s, v). length s)"
    by simp
next
  fix c :: char and cs :: string and variables :: "string \<rightharpoonup> string"
  show "((cs, variables), (c # cs, variables)) \<in> measure (\<lambda>(s, v). length s)"
    by simp
qed

section \<open>Message classifier\<close>

text \<open>
  The branch taken by the \<open>if\<close>/\<open>else if\<close> chain of \<open>processMessage\<close>: the kind names
  the template the branch renders, the map holds the variables the branch passes.
\<close>

datatype kind = KText | KPhoto | KDocument | KAudio | KVoice | KVideo | KSticker
  | KLocation | KUnknown

definition classify :: "TelegramMessage \<Rightarrow> kind \<times> (string \<rightharpoonup> string)" where
  "classify msg =
     (if truthy_str (msg_text msg) then
        (KText, [''text'' \<mapsto> the (msg_text msg)])
      else if truthy_obj (photo msg) then
        (KPhoto, [''caption'' \<mapsto> or_else (caption msg) ''No caption''])
      else if truthy_obj (document msg) then
        (KDocument, [''filename'' \<mapsto> or_else (file_name (the (document msg))) ''Unknown''])
      else if truthy_obj (audio msg) then
        (KAudio, [''title'' \<mapsto> or_else (audio_title (the (audio msg))) ''Unknown''])
      else if truthy_obj (voice msg) then
        (KVoice, [''duration'' \<mapsto> int_to_string (voice_duration (the (voice msg)))])
      else if truthy_obj (video msg) then
        (KVideo, [''caption'' \<mapsto> or_else (caption msg) ''No caption''])
      else if truthy_obj (sticker msg) then
        (KSticker, [''emoji'' \<mapsto> or_else (emoji (the (sticker msg))) ''No emoji''])
      else if truthy_obj (location msg) then
        (KLocation, [''latitude'' \<mapsto> latitude (the (location msg)),
                     ''longitude'' \<mapsto> longitude (the (location msg))])
      else (KUnknown, Map.empty))"

definition template_of :: "template_set \<Rightarrow> kind \<Rightarrow> string" where
  "template_of ts k =
     (case k of KText \<Rightarrow> textMessageTemplate ts | KPhoto \<Rightarrow> photoTemplate ts
      | KDocument \<Rightarrow> documentTemplate ts | KAudio \<Rightarrow> audioTemplate ts
      | KVoice \<Rightarrow> voiceTemplate ts | KVideo \<Rightarrow> videoTemplate ts
      | KSticker \<Rightarrow> stickerTemplate ts | KLocation \<Rightarrow> locationTemplate ts
      | KUnknown \<Rightarrow> unknownTemplate ts)"

text \<open>
  Whether the content field of a kind is populated, as the chain tests it: the field
  is truthy. For the string field \<open>text\<close> that is present and non-empty, for the
  object and array fields it is present.
\<close>

definition populated :: "TelegramMessage \<Rightarrow> kind \<Rightarrow> bool" where
  "populated msg k =
     (case k of KText \<Rightarrow> truthy_str (msg_text msg) | KPhoto \<Rightarrow> truthy_obj (photo msg)
      | KDocument \<Rightarrow> truthy_obj (document msg) | KAudio \<Rightarrow> truthy_obj (audio msg)
      | KVoice \<Rightarrow> truthy_obj (voice msg) | KVideo \<Rightarrow> truthy_obj (video msg)
      | KSticker \<Rightarrow> truthy_obj (sticker msg) | KLocation \<Rightarrow> truthy_obj (location msg)
      | KUnknown \<Rightarrow> False)"

definition priority_order :: "kind list" where
  "priority_order = [KText, KPhoto, KDocument, KAudio, KVoice, KVideo, KSticker, KLocation]"

section \<open>Note renderer\<close>

text \<open>
  \<open>Date.prototype.toISOString\<close> on a time value in milliseconds since the epoch, in
  UTC. The civil date of a day number is computed from the count of days since
  0000-03-01, split into cycles of 400, 100, 4 and 1 years. Years 0 to 9999 are
  written with four digits, every other year with a sign and six digits. A time
  value beyond 8.64e15 ms in magnitude is an invalid date, for which the method
  throws a \<open>RangeError\<close>.
\<close>

datatype error = RangeError | FolderError string

definition civil_from_days :: "int \<Rightarrow> int \<times> int \<times> int" where
  "civil_from_days days =
     (let z = days + 719468;
          n400 = z div 146097;
          d1 = z mod 146097;
          n100 = min 3 (d1 div 36524);
          d2 = d1 - n100 * 36524;
          n4 = d2 div 1461;
          d3 = d2 mod 1461;
          n1 = min 3 (d3 div 365);
          doy = d3 - n1 * 365;
          y = 400 * n400 + 100 * n100 + 4 * n4 + n1;
          mp = (5 * doy + 2) div 153;
          d = doy - (153 * mp + 2) div 5 + 1;
          m = (if mp < 10 then mp + 3 else mp - 9)
      in (if m \<le> 2 then y + 1 else y, m, d))"

definition pad_start :: "nat \<Rightarrow> string \<Rightarrow> string" where
  "pad_start w s = replicate (w - length s) (CHR ''0'') @ s"

definition pad_num :: "nat \<Rightarrow> int \<Rightarrow> string" where
  "pad_num w i = pad_start w (decimal i)"

definition iso_year :: "int \<Rightarrow> string" where
  "iso_year y =
     (if 0 \<le> y \<and> y \<le> 9999 then pad_num 4 y
      else (if y < 0 then ''-'' else ''+'') @ pad_num 6 (abs y))"

definition toISOString :: "int \<Rightarrow> error + string" where
  "toISOString t =
     (if abs t > 8640000000000000 then Inl RangeError
      else
        (let (y, m, d) = civil_from_days (t div 86400000);
             r = t mod 86400000
         in Inr (iso_year y @ ''-'' @ pad_num 2 m @ ''-'' @ pad_num 2 d @ ''T''
              @ pad_num 2 (r div 3600000) @ '':'' @ pad_num 2 (r div 60000 mod 60) @ '':''
              @ pad_num 2 (r div 1000 mod 60) @ ''.'' @ pad_num 3 (r mod 1000) @ ''Z'')))"

text \<open>\<open>.replace(/[:.]/g, '-')\<close> and \<open>.slice(0, 19)\<close>.\<close>

definition dash_colon_dot :: "string \<Rightarrow> string" where
  "dash_colon_dot s = map (\<lambda>c. if c = CHR '':'' \<or> c = CHR ''.'' then CHR ''-'' else c) s"

definition formattedDate :: "int \<Rightarrow> error + string" where
  "formattedDate secs =
     (case toISOString (secs * 1000) of
        Inl e \<Rightarrow> Inl e
      | Inr s \<Rightarrow> Inr (take 19 (dash_colon_dot s)))"

text \<open>
  The sender and chat names of the metadata block. \<open>msg.from?.first_name\<close> is
  \<open>undefined\<close> when there is no sender.
\<close>

definition sender_field :: "(tg_user \<Rightarrow> string option) \<Rightarrow> tg_user option \<Rightarrow> string option" where
  "sender_field f u = (case u of None \<Rightarrow> None | Some x \<Rightarrow> f x)"

definition fromName :: "TelegramMessage \<Rightarrow> string" where
  "fromName msg =
     or_else (sender_field first_name (sender msg)) [] @ '' ''
     @ or_else (sender_field last_name (sender msg)) [] @ '' ''
     @ (if truthy_str (sender_field user_username (sender msg))
        then ''(@'' @ the (sender_field user_username (sender msg)) @ '')'' else [])"

definition chatName :: "TelegramMessage \<Rightarrow> string" where
  "chatName msg =
     (if truthy_str (chat_title (chat msg)) then the (chat_title (chat msg))
      else or_else (chat_username (chat msg)) ''Private Chat'')"

text \<open>
  \<open>processMessage\<close> up to its last line: the result is the pair of arguments passed to
  \<open>vault.create\<close>, the file name and the note content, or the error thrown on the way.
  \<open>toLocaleString\<close> is the host's localized rendering of the timestamp, a parameter.
\<close>

definition noteContent :: "(int \<Rightarrow> string) \<Rightarrow> TelegramSyncSettings \<Rightarrow> TelegramMessage \<Rightarrow> string" where
  "noteContent toLocaleString settings msg =
     (if includeMetadata settings then
        processTemplate (titleTemplate (templates settings)) Map.empty @ nl @ nl
        @ processTemplate (metadataTemplate (templates settings))
            [''from'' \<mapsto> fromName msg,
             ''date'' \<mapsto> toLocaleString (date msg * 1000),
             ''chat'' \<mapsto> chatName msg] @ nl @ nl
      else [])
     @ (case classify msg of
          (k, variables) \<Rightarrow> processTemplate (template_of (templates settings) k) variables)"

definition fileName :: "TelegramSyncSettings \<Rightarrow> TelegramMessage \<Rightarrow> error + string" where
  "fileName settings msg =
     (case formattedDate (date msg) of
        Inl e \<Rightarrow> Inl e
      | Inr stamp \<Rightarrow>
          Inr (folderPath settings @ ''/'' @ stamp @ ''-'' @ int_to_string (message_id msg) @ ''.md''))"

definition processMessage ::
  "(int \<Rightarrow> string) \<Rightarrow> TelegramSyncSettings \<Rightarrow> TelegramMessage \<Rightarrow> error + (string \<times> string)" where
  "processMessage toLocaleString settings msg =
     (case fileName settings msg of
        Inl e \<Rightarrow> Inl e
      | Inr path \<Rightarrow> Inr (path, noteContent toLocaleString settings msg))"



definition example_message :: TelegramMessage where
  "example_message = \<lparr> message_id = 42, sender = None,
     chat = \<lparr> chat_id = 1, chat_type = ''private'', chat_title = None, chat_username = None \<rparr>,
     date = 1710000000, msg_text = Some ''hello'', caption = None, photo = None, document = None,
     audio = None, voice = None, video = None, sticker = None, location = None \<rparr>"

section \<open>Folder provisioner\<close>

text \<open>
  The vault is the set of paths that exist, together with the list of \<open>createFolder\<close>
  calls made so far. Whether \<open>adapter.exists\<close> or \<open>createFolder\<close> throws for a path
  is given by the environment. A successful \<open>createFolder\<close> makes the path exist.
  \<open>split_on\<close> is \<open>String.prototype.split\<close> with a one-character separator: the empty
  string splits into one empty piece.
\<close>

record vault =
  folders :: "string set"
  createFolder_calls :: "string list"

record vault_env =
  exists_throws :: "string \<Rightarrow> bool"
  createFolder_throws :: "string \<Rightarrow> bool"

fun split_on :: "char \<Rightarrow> string \<Rightarrow> string list" where
  "split_on sep [] = [[]]"
| "split_on sep (c # cs) =
     (if c = sep then [] # split_on sep cs
      else (case split_on sep cs of
              [] \<Rightarrow> [[c]]
            | p # ps \<Rightarrow> (c # p) # ps))"

text \<open>
  The \<open>for\<close> loop of \<open>ensureFolderExists\<close>, with \<open>currentPath\<close> as an argument. The
  result is the error thrown, if any, and the vault as it is then: folders created
  before a failure stay.
\<close>

fun ensure_loop :: "vault_env \<Rightarrow> string \<Rightarrow> string list \<Rightarrow> vault \<Rightarrow> error option \<times> vault" where
  "ensure_loop env currentPath [] v = (None, v)"
| "ensure_loop env currentPath (folder # rest) v =
     (let p = currentPath @ folder in
      if exists_throws env p then (Some (FolderError p), v)
      else if p \<in> folders v then ensure_loop env (p @ ''/'') rest v
      else if createFolder_throws env p then (Some (FolderError p), v)
      else ensure_loop env (p @ ''/'') rest
             (v\<lparr>folders := insert p (folders v),
                createFolder_calls := createFolder_calls v @ [p]\<rparr>))"

definition ensureFolderExists :: "vault_env \<Rightarrow> string \<Rightarrow> vault \<Rightarrow> error option \<times> vault" where
  "ensureFolderExists env path v =
     ensure_loop env [] (filter (\<lambda>p. length p > 0) (split_on (CHR ''/'') path)) v"

definition reliable_vault :: vault_env where
  "reliable_vault = \<lparr> exists_throws = (\<lambda>p. False), createFolder_throws = (\<lambda>p. False) \<rparr>"

definition empty_vault :: vault where
  "empty_vault = \<lparr> folders = {}, createFolder_calls = [] \<rparr>"

definition provisioned_vault :: vault where
  "provisioned_vault = \<lparr> folders = {''Telegram/notes'', ''Telegram''},
      createFolder_calls = [''Telegram'', ''Telegram/notes''] \<rparr>"

section \<open>Bot lifecycle\<close>

text \<open>
  The plugin object: its settings, the field \<open>bot\<close> (a handle to the connection
  object, \<open>None\<close> for \<open>null\<close>), the vault, and the notices shown. The transport side is
  part of the state: \<open>polling\<close> lists the connections that are polling, \<open>next_handle\<close>
  is the handle the next \<open>new TelegramBot\<close> gets, \<open>text_triggers\<close> the patterns
  registered with \<open>onText\<close> on the current connection. The environment says whether
  \<open>stopPolling\<close> rejects and whether the constructor throws. A connection whose
  \<open>stopPolling\<close> rejected is still polling. A notice is recorded without the message
  of the error it reports.
\<close>

record plugin =
  settings :: TelegramSyncSettings
  bot :: "nat option"
  polling :: "nat list"
  next_handle :: nat
  text_triggers :: "string list"
  plugin_vault :: vault
  notices :: "string list"

record lifecycle_env =
  stopPolling_rejects :: bool
  constructor_throws :: bool
  vault_behaviour :: vault_env

datatype session = Stopped | Running

definition session_of :: "plugin \<Rightarrow> session" where
  "session_of s = (case bot s of None \<Rightarrow> Stopped | Some h \<Rightarrow> Running)"

definition notice :: "string \<Rightarrow> plugin \<Rightarrow> plugin" where
  "notice m s = s\<lparr>notices := notices s @ [m]\<rparr>"

definition stopBot :: "lifecycle_env \<Rightarrow> plugin \<Rightarrow> plugin" where
  "stopBot env s =
     (case bot s of
        None \<Rightarrow> s
      | Some h \<Rightarrow>
          if stopPolling_rejects env then notice ''Error stopping bot'' s
          else notice ''Telegram bot stopped''
                 (s\<lparr>polling := removeAll h (polling s), bot := None\<rparr>))"

definition command_patterns :: "string list" where
  "command_patterns = [''/help'', ''/status'', ''/notes'']"

definition setupBotCommands :: "plugin \<Rightarrow> plugin" where
  "setupBotCommands s =
     (case bot s of
        None \<Rightarrow> s
      | Some h \<Rightarrow> s\<lparr>text_triggers := text_triggers s @ command_patterns\<rparr>)"

text \<open>
  \<open>startBot\<close> after its call of \<open>stopBot\<close>: the token check, the folder, the new
  connection, the handlers; the \<open>catch\<close> block reports and clears \<open>bot\<close>.
\<close>

definition start_catch :: "plugin \<Rightarrow> plugin" where
  "start_catch s = (notice ''Failed to start Telegram bot'' s)\<lparr>bot := None\<rparr>"

definition start_after_stop :: "lifecycle_env \<Rightarrow> plugin \<Rightarrow> plugin" where
  "start_after_stop env s =
     (if \<not> truthy_str (Some (botToken (settings s))) then
        notice ''Telegram bot token is not set. Please configure it in settings.'' s
      else
        (case ensureFolderExists (vault_behaviour env) (folderPath (settings s)) (plugin_vault s) of
           (Some e, v) \<Rightarrow> start_catch (s\<lparr>plugin_vault := v\<rparr>)
         | (None, v) \<Rightarrow>
             if constructor_throws env then start_catch (s\<lparr>plugin_vault := v\<rparr>)
             else
               (let s1 = s\<lparr>plugin_vault := v, bot := Some (next_handle s),
                          polling := polling s @ [next_handle s],
                          next_handle := Suc (next_handle s), text_triggers := []\<rparr>;
                    s2 = (if supportCommands (settings s1) then setupBotCommands s1 else s1)
                in notice ''Telegram bot started successfully'' s2)))"

definition startBot :: "lifecycle_env \<Rightarrow> plugin \<Rightarrow> plugin" where
  "startBot env s = start_after_stop env (stopBot env s)"

text \<open>
  The states of the plugin at the points where \<open>bot\<close> can have changed during
  \<open>startBot\<close>: on entry, after the awaited \<open>stopBot\<close>, on return.
\<close>

definition startBot_trace :: "lifecycle_env \<Rightarrow> plugin \<Rightarrow> plugin list" where
  "startBot_trace env s = [s, stopBot env s, startBot env s]"

definition saveSettings :: "lifecycle_env \<Rightarrow> plugin \<Rightarrow> plugin" where
  "saveSettings env s = (case bot s of None \<Rightarrow> s | Some h \<Rightarrow> startBot env s)"

definition calm_env :: lifecycle_env where
  "calm_env = \<lparr> stopPolling_rejects = False, constructor_throws = False,
                vault_behaviour = reliable_vault \<rparr>"

definition close_fails_env :: lifecycle_env where
  "close_fails_env = \<lparr> stopPolling_rejects = True, constructor_throws = False,
                       vault_behaviour = reliable_vault \<rparr>"

definition running_plugin :: plugin where
  "running_plugin = \<lparr> settings = DEFAULT_SETTINGS\<lparr>botToken := ''123:abc''\<rparr>,
     bot = Some 0, polling = [0], next_handle = 1, text_triggers = command_patterns,
     plugin_vault = \<lparr> folders = {''Telegram''}, createFolder_calls = [''Telegram''] \<rparr>,
     notices = [] \<rparr>"

definition tokenless_plugin :: plugin where
  "tokenless_plugin = running_plugin\<lparr>settings := DEFAULT_SETTINGS\<rparr>"

section \<open>Command triggers\<close>

text \<open>
  The triggers are registered with \<open>onText(/\/help/, ...)\<close>, \<open>onText(/\/status/, ...)\<close>
  and \<open>onText(/\/notes/, ...)\<close>. The patterns have no anchor and no special
  character, so \<open>regexp.exec(text)\<close> succeeds exactly when the command occurs somewhere
  in the text; \<open>regexp_search\<close> tries the literal at each position. \<open>onText\<close> is
  the method of the library \<open>node-telegram-bot-api\<close>: it runs the callback for a
  message that has a text on which \<open>regexp.exec\<close> succeeds.
\<close>

fun regexp_search :: "string \<Rightarrow> string \<Rightarrow> bool" where
  "regexp_search pat [] = (pat = [])"
| "regexp_search pat (c # cs) = (prefix pat (c # cs) \<or> regexp_search pat cs)"

definition onText_fires :: "string \<Rightarrow> TelegramMessage \<Rightarrow> bool" where
  "onText_fires pat msg = (truthy_str (msg_text msg) \<and> regexp_search pat (the (msg_text msg)))"

text \<open>
  The leading token of a text, in the words of the specification: the characters
  before the first space.
\<close>

definition leading_token :: "string \<Rightarrow> string" where
  "leading_token s = takeWhile (\<lambda>c. c \<noteq> CHR '' '') s"

definition text_message :: "string \<Rightarrow> TelegramMessage" where
  "text_message s = example_message\<lparr>msg_text := Some s\<rparr>"

section \<open>Settings\<close>

text \<open>
  \<open>loadSettings\<close> is \<open>Object.assign({}, DEFAULT_SETTINGS, await this.loadData())\<close>, on
  untyped objects: an object is a map from property names to values, a value is a
  string, a boolean or an object. \<open>Object.assign\<close> copies the own properties of each
  source onto the target, a later value replacing an earlier one of the same name; a
  source that is \<open>null\<close> (no stored data) is skipped. \<open>get_prop\<close> is property access,
  \<open>undefined\<close> being \<open>None\<close>; \<open>get_nested obj a b\<close> is \<open>obj.a.b\<close>.
\<close>

datatype jvalue = JString string | JBool bool | JObject "string \<Rightarrow> jvalue option"

type_synonym jobject = "string \<Rightarrow> jvalue option"

definition get_prop :: "jobject \<Rightarrow> string \<Rightarrow> jvalue option" where
  "get_prop obj k = obj k"

definition get_nested :: "jobject \<Rightarrow> string \<Rightarrow> string \<Rightarrow> jvalue option" where
  "get_nested obj k1 k2 =
     (case get_prop obj k1 of Some (JObject inner) \<Rightarrow> get_prop inner k2 | _ \<Rightarrow> None)"

definition Object_assign :: "jobject \<Rightarrow> jobject option \<Rightarrow> jobject" where
  "Object_assign target source =
     (case source of None \<Rightarrow> target | Some props \<Rightarrow> target ++ props)"

definition templates_object :: "template_set \<Rightarrow> jobject" where
  "templates_object ts =
     [''titleTemplate'' \<mapsto> JString (titleTemplate ts),
      ''metadataTemplate'' \<mapsto> JString (metadataTemplate ts),
      ''textMessageTemplate'' \<mapsto> JString (textMessageTemplate ts),
      ''photoTemplate'' \<mapsto> JString (photoTemplate ts),
      ''documentTemplate'' \<mapsto> JString (documentTemplate ts),
      ''audioTemplate'' \<mapsto> JString (audioTemplate ts),
      ''voiceTemplate'' \<mapsto> JString (voiceTemplate ts),
      ''videoTemplate'' \<mapsto> JString (videoTemplate ts),
      ''stickerTemplate'' \<mapsto> JString (stickerTemplate ts),
      ''locationTemplate'' \<mapsto> JString (locationTemplate ts),
      ''unknownTemplate'' \<mapsto> JString (unknownTemplate ts)]"

definition settings_object :: "TelegramSyncSettings \<Rightarrow> jobject" where
  "settings_object st =
     [''botToken'' \<mapsto> JString (botToken st),
      ''folderPath'' \<mapsto> JString (folderPath st),
      ''includeMetadata'' \<mapsto> JBool (includeMetadata st),
      ''supportCommands'' \<mapsto> JBool (supportCommands st),
      ''templates'' \<mapsto> JObject (templates_object (templates st))]"

definition loadSettings :: "jobject option \<Rightarrow> jobject" where
  "loadSettings loadData =
     Object_assign (Object_assign Map.empty (Some (settings_object DEFAULT_SETTINGS))) loadData"

definition stored_title_only :: jobject where
  "stored_title_only =
     [''folderPath'' \<mapsto> JString ''Inbox'',
      ''templates'' \<mapsto> JObject [''titleTemplate'' \<mapsto> JString ''# Note'']]"

section \<open>Classification\<close>

text \<open>
  C1. The kind returned by the classifier is the first populated kind in the order
  text, photo, document, audio, voice, video, sticker, location, and unknown when no
  kind is populated. With exactly one populated field that field is the first one;
  with several, the earliest in the order. A field is populated when the chain's test
  of it succeeds: present (and, for the string \<open>text\<close>, not empty).
\<close>

theorem classify_first_populated:
  "fst (classify msg) =
     (case find (populated msg) priority_order of Some k \<Rightarrow> k | None \<Rightarrow> KUnknown)"
  by (simp add: classify_def populated_def priority_order_def)

section \<open>Properties of the template engine\<close>

lemma open_brace_not_word: "\<not> is_word_char (CHR ''{'')"
  by (simp add: is_word_char_def)

lemma close_brace_not_word: "\<not> is_word_char (CHR ''}'')"
  by (simp add: is_word_char_def)

lemma match_marker_at_marker:
  assumes "key \<noteq> []" and "\<forall>c\<in>set key. is_word_char c"
  shows "match_marker (marker key @ post) = Some (key, post)"
proof -
  have tw: "takeWhile is_word_char (key @ CHR ''}'' # CHR ''}'' # post) = key"
    using assms(2) by (simp add: takeWhile_append2 close_brace_not_word)
  have dw: "dropWhile is_word_char (key @ CHR ''}'' # CHR ''}'' # post) = CHR ''}'' # CHR ''}'' # post"
    using assms(2) by (simp add: dropWhile_append2 close_brace_not_word)
  show ?thesis
    using assms(1) by (simp add: match_marker_def marker_def tw dw)
qed

lemma match_marker_SomeD:
  assumes "match_marker s = Some (key, rest)"
  shows "s = marker key @ rest \<and> key \<noteq> [] \<and> (\<forall>c\<in>set key. is_word_char c)"
proof -
  from assms have t2: "take 2 s = ''{{''"
    and k: "key = takeWhile is_word_char (drop 2 s)" and ne: "key \<noteq> []"
    and t2r: "take 2 (dropWhile is_word_char (drop 2 s)) = ''}}''"
    and r: "rest = drop 2 (dropWhile is_word_char (drop 2 s))"
    by (auto simp: match_marker_def Let_def split: if_splits)
  have "s = take 2 s @ drop 2 s" by simp
  also have "drop 2 s = key @ dropWhile is_word_char (drop 2 s)"
    using k by simp
  also have "dropWhile is_word_char (drop 2 s) = ''}}'' @ rest"
    using t2r r by (metis append_take_drop_id)
  finally have "s = marker key @ rest"
    using t2 by (simp add: marker_def)
  moreover have "\<forall>c\<in>set key. is_word_char c"
    using k by (auto dest: set_takeWhileD)
  ultimately show ?thesis using ne by simp
qed

lemma match_marker_extend:
  assumes "match_marker pre = Some (key, rest)"
  shows "match_marker (pre @ x) = Some (key, rest @ x)"
proof -
  from match_marker_SomeD [OF assms]
  have "pre = marker key @ rest" "key \<noteq> []" "\<forall>c\<in>set key. is_word_char c" by simp_all
  then show ?thesis
    using match_marker_at_marker [of key "rest @ x"] by simp
qed

lemma match_marker_None_before_braces:
  assumes "pre \<noteq> []" and "match_marker pre = None"
  shows "match_marker (pre @ CHR ''{'' # CHR ''{'' # x) = None"
proof (cases pre)
  case Nil
  with assms(1) show ?thesis by simp
next
  case (Cons a l)
  show ?thesis
  proof (cases l)
    case Nil
    with Cons show ?thesis
      by (simp add: match_marker_def open_brace_not_word)
  next
    case (Cons b r)
    with \<open>pre = a # l\<close> have pre: "pre = a # b # r" by simp
    show ?thesis
    proof (cases "a = CHR ''{'' \<and> b = CHR ''{''")
      case False
      then show ?thesis by (auto simp: pre match_marker_def)
    next
      case True
      show ?thesis
      proof (cases "\<forall>c\<in>set r. is_word_char c")
        case allw: True
        then have "dropWhile is_word_char (r @ CHR ''{'' # CHR ''{'' # x) = CHR ''{'' # CHR ''{'' # x"
          by (simp add: dropWhile_append2 open_brace_not_word)
        then show ?thesis
          using True by (simp add: pre match_marker_def Let_def)
      next
        case False
        then obtain c where c: "c \<in> set r" "\<not> is_word_char c" by blast
        then have tw: "takeWhile is_word_char (r @ CHR ''{'' # CHR ''{'' # x) = takeWhile is_word_char r"
          and dw: "dropWhile is_word_char (r @ CHR ''{'' # CHR ''{'' # x)
                   = dropWhile is_word_char r @ CHR ''{'' # CHR ''{'' # x"
          by (simp_all add: takeWhile_append1 dropWhile_append1)
        from c have dne: "dropWhile is_word_char r \<noteq> []"
          by (auto simp: dropWhile_eq_Nil_conv)
        from assms(2) True
        have alone: "takeWhile is_word_char r = [] \<or> take 2 (dropWhile is_word_char r) \<noteq> ''}}''"
          by (auto simp: pre match_marker_def Let_def split: if_splits)
        have "take 2 (dropWhile is_word_char r @ CHR ''{'' # CHR ''{'' # x) = ''}}''
              \<Longrightarrow> take 2 (dropWhile is_word_char r) = ''}}''"
          using dne by (cases "dropWhile is_word_char r"; cases "tl (dropWhile is_word_char r)") auto
        with alone show ?thesis
          using True by (auto simp: pre match_marker_def Let_def tw dw)
      qed
    qed
  qed
qed

lemma processTemplate_marker_split:
  assumes "key \<noteq> []" and "\<forall>c\<in>set key. is_word_char c"
  shows "processTemplate (pre @ marker key @ post) variables
         = processTemplate pre variables @ replacement variables key @ processTemplate post variables"
proof (induction pre variables rule: processTemplate.induct)
  case (1 variables)
  have "marker key @ post = CHR ''{'' # (CHR ''{'' # key @ ''}}'' @ post)"
    by (simp add: marker_def)
  then have "processTemplate (marker key @ post) variables
             = replacement variables key @ processTemplate post variables"
    using match_marker_at_marker [OF assms, of post] by simp
  then show ?case by simp
next
  case (2 c cs variables)
  show ?case
  proof (cases "match_marker (c # cs)")
    case None
    have "match_marker ((c # cs) @ marker key @ post) = None"
      using match_marker_None_before_braces [OF _ None, of "key @ ''}}'' @ post"]
      by (simp add: marker_def)
    then have "processTemplate ((c # cs) @ marker key @ post) variables
               = c # processTemplate (cs @ marker key @ post) variables"
      by simp
    with 2(1) [OF None] None show ?thesis by simp
  next
    case (Some kr)
    obtain k rest where kr: "kr = (k, rest)" by (cases kr)
    have "match_marker ((c # cs) @ marker key @ post) = Some (k, rest @ marker key @ post)"
      using match_marker_extend [of "c # cs" k rest "marker key @ post"] Some kr by simp
    then have "processTemplate ((c # cs) @ marker key @ post) variables
               = replacement variables k @ processTemplate (rest @ marker key @ post) variables"
      by simp
    with 2(2) [OF Some kr [symmetric]] Some kr show ?thesis by simp
  qed
qed



text \<open>
  C7, as the code has it. A marker whose key is present in the variables is replaced
  by the entry when the entry is a non-empty string. An entry that is the empty
  string is falsy, so \<open>variables[key] || match\<close> yields the marker itself and the
  marker stays in the output.
\<close>

theorem present_marker_replaced:
  assumes "key \<noteq> []" and "\<forall>c\<in>set key. is_word_char c" and "variables key = Some v"
  shows "processTemplate (pre @ marker key @ post) variables
         = processTemplate pre variables @ (if v = [] then marker key else v)
           @ processTemplate post variables"
  using processTemplate_marker_split [OF assms(1,2), of pre post variables] assms(3)
  by (simp add: replacement_def or_else_def)

theorem present_marker_replaced_witness:
  "''text'' \<noteq> [] \<and> list_all is_word_char ''text'' \<and> [''text'' \<mapsto> ''hello''] ''text'' = Some ''hello''
   \<and> processTemplate (''## Message: '' @ marker ''text'' @ ''.'') [''text'' \<mapsto> ''hello'']
       = ''## Message: hello.''"
proof -
  have h1: "''text'' \<noteq> []" by simp
  have h2: "\<forall>c\<in>set ''text''. is_word_char c" by (simp add: is_word_char_def)
  have h3: "[''text'' \<mapsto> ''hello''] ''text'' = Some ''hello''" by simp
  have "processTemplate (''## Message: '' @ marker ''text'' @ ''.'') [''text'' \<mapsto> ''hello'']
        = ''## Message: hello.''"
    using present_marker_replaced [where key = "''text''" and variables = "[''text'' \<mapsto> ''hello'']"
        and v = "''hello''" and pre = "''## Message: ''" and post = "''.''", OF h1 h2 h3]
    by (simp add: match_marker_def)
  with h1 h2 h3 show ?thesis by (simp add: list_all_iff)
qed

text \<open>
  The claim C7 as stated fails for an empty entry: in \<open>x{{a}}y\<close> with \<open>a\<close> bound to the
  empty string the marker is not replaced by the entry.
\<close>

theorem empty_entry_not_substituted:
  "processTemplate ''x{{a}}y'' [''a'' \<mapsto> ''''] = ''x{{a}}y''
   \<and> processTemplate ''x{{a}}y'' [''a'' \<mapsto> ''''] \<noteq> ''x'' @ the ([''a'' \<mapsto> ''''] ''a'') @ ''y''"
  by (simp add: match_marker_def is_word_char_def replacement_def or_else_def marker_def)

section \<open>Empty strings in the pipeline\<close>

lemma processMessage_cong:
  assumes "date m1 = date m2" and "message_id m1 = message_id m2"
    and "noteContent tls st m1 = noteContent tls st m2"
  shows "processMessage tls st m1 = processMessage tls st m2"
proof -
  have "fileName st m1 = fileName st m2"
    using assms(1,2) by (simp add: fileName_def split: sum.split)
  then show ?thesis
    using assms(3) by (simp add: processMessage_def split: sum.split)
qed

lemma noteContent_cong:
  assumes "classify m1 = classify m2" and "date m1 = date m2"
    and "sender m1 = sender m2" and "chat m1 = chat m2"
  shows "noteContent tls st m1 = noteContent tls st m2"
  using assms by (simp add: noteContent_def fromName_def chatName_def)

lemmas empty_field_defs = classify_def truthy_str_def truthy_obj_def or_else_def

text \<open>
  C10. A string field that is present but empty is treated as an absent one. The
  whole result of \<open>processMessage\<close> is the same for an empty and for an absent
  \<open>text\<close>, \<open>caption\<close>, \<open>file_name\<close>, \<open>title\<close> or \<open>emoji\<close>; a message with an empty \<open>text\<close>
  is not classified as text; and the empty caption, file name, title and emoji give
  the default literals.
\<close>

theorem empty_string_as_absent:
  "processMessage tls st (msg\<lparr>msg_text := Some []\<rparr>)
     = processMessage tls st (msg\<lparr>msg_text := None\<rparr>)
   \<and> processMessage tls st (msg\<lparr>caption := Some []\<rparr>)
     = processMessage tls st (msg\<lparr>caption := None\<rparr>)
   \<and> processMessage tls st (msg\<lparr>document := Some (d\<lparr>file_name := Some []\<rparr>)\<rparr>)
     = processMessage tls st (msg\<lparr>document := Some (d\<lparr>file_name := None\<rparr>)\<rparr>)
   \<and> processMessage tls st (msg\<lparr>audio := Some (a\<lparr>audio_title := Some []\<rparr>)\<rparr>)
     = processMessage tls st (msg\<lparr>audio := Some (a\<lparr>audio_title := None\<rparr>)\<rparr>)
   \<and> processMessage tls st (msg\<lparr>sticker := Some (s\<lparr>emoji := Some []\<rparr>)\<rparr>)
     = processMessage tls st (msg\<lparr>sticker := Some (s\<lparr>emoji := None\<rparr>)\<rparr>)
   \<and> fst (classify (msg\<lparr>msg_text := Some []\<rparr>)) \<noteq> KText
   \<and> fst (classify (msg\<lparr>msg_text := Some []\<rparr>))
     = (case find (populated msg) (tl priority_order) of Some k \<Rightarrow> k | None \<Rightarrow> KUnknown)
   \<and> classify (msg\<lparr>msg_text := Some [], photo := Some ps, caption := Some []\<rparr>)
     = (KPhoto, [''caption'' \<mapsto> ''No caption''])
   \<and> classify (msg\<lparr>msg_text := Some [], photo := None, document := Some \<lparr>file_name = Some []\<rparr>\<rparr>)
     = (KDocument, [''filename'' \<mapsto> ''Unknown''])
   \<and> classify (msg\<lparr>msg_text := Some [], photo := None, document := None,
         audio := Some \<lparr>audio_title = Some [], audio_duration = n\<rparr>\<rparr>)
     = (KAudio, [''title'' \<mapsto> ''Unknown''])
   \<and> classify (msg\<lparr>msg_text := Some [], photo := None, document := None, audio := None,
         voice := None, video := Some v, caption := Some []\<rparr>)
     = (KVideo, [''caption'' \<mapsto> ''No caption''])
   \<and> classify (msg\<lparr>msg_text := Some [], photo := None, document := None, audio := None,
         voice := None, video := None, sticker := Some \<lparr>emoji = Some []\<rparr>\<rparr>)
     = (KSticker, [''emoji'' \<mapsto> ''No emoji''])"
proof -
  have "processMessage tls st (msg\<lparr>msg_text := Some []\<rparr>)
        = processMessage tls st (msg\<lparr>msg_text := None\<rparr>)"
    by (intro processMessage_cong noteContent_cong) (simp_all add: empty_field_defs)
  moreover have "processMessage tls st (msg\<lparr>caption := Some []\<rparr>)
        = processMessage tls st (msg\<lparr>caption := None\<rparr>)"
    by (intro processMessage_cong noteContent_cong) (simp_all add: empty_field_defs)
  moreover have "processMessage tls st (msg\<lparr>document := Some (d\<lparr>file_name := Some []\<rparr>)\<rparr>)
        = processMessage tls st (msg\<lparr>document := Some (d\<lparr>file_name := None\<rparr>)\<rparr>)"
    by (intro processMessage_cong noteContent_cong) (simp_all add: empty_field_defs)
  moreover have "processMessage tls st (msg\<lparr>audio := Some (a\<lparr>audio_title := Some []\<rparr>)\<rparr>)
        = processMessage tls st (msg\<lparr>audio := Some (a\<lparr>audio_title := None\<rparr>)\<rparr>)"
    by (intro processMessage_cong noteContent_cong) (simp_all add: empty_field_defs)
  moreover have "processMessage tls st (msg\<lparr>sticker := Some (s\<lparr>emoji := Some []\<rparr>)\<rparr>)
        = processMessage tls st (msg\<lparr>sticker := Some (s\<lparr>emoji := None\<rparr>)\<rparr>)"
    by (intro processMessage_cong noteContent_cong) (simp_all add: empty_field_defs)
  moreover have "fst (classify (msg\<lparr>msg_text := Some []\<rparr>)) \<noteq> KText"
    by (simp add: empty_field_defs)
  moreover have "fst (classify (msg\<lparr>msg_text := Some []\<rparr>))
        = (case find (populated msg) (tl priority_order) of Some k \<Rightarrow> k | None \<Rightarrow> KUnknown)"
    by (simp add: empty_field_defs populated_def priority_order_def)
  moreover have "classify (msg\<lparr>msg_text := Some [], photo := Some ps, caption := Some []\<rparr>)
        = (KPhoto, [''caption'' \<mapsto> ''No caption''])"
    by (simp add: empty_field_defs)
  moreover have "classify (msg\<lparr>msg_text := Some [], photo := None,
          document := Some \<lparr>file_name = Some []\<rparr>\<rparr>)
        = (KDocument, [''filename'' \<mapsto> ''Unknown''])"
    by (simp add: empty_field_defs)
  moreover have "classify (msg\<lparr>msg_text := Some [], photo := None, document := None,
          audio := Some \<lparr>audio_title = Some [], audio_duration = n\<rparr>\<rparr>)
        = (KAudio, [''title'' \<mapsto> ''Unknown''])"
    by (simp add: empty_field_defs)
  moreover have "classify (msg\<lparr>msg_text := Some [], photo := None, document := None, audio := None,
          voice := None, video := Some v, caption := Some []\<rparr>)
        = (KVideo, [''caption'' \<mapsto> ''No caption''])"
    by (simp add: empty_field_defs)
  moreover have "classify (msg\<lparr>msg_text := Some [], photo := None, document := None, audio := None,
          voice := None, video := None, sticker := Some \<lparr>emoji = Some []\<rparr>\<rparr>)
        = (KSticker, [''emoji'' \<mapsto> ''No emoji''])"
    by (simp add: empty_field_defs)
  ultimately show ?thesis by blast
qed

section \<open>Properties of the note renderer\<close>

text \<open>Known values of the calendar model, among them the ends of the valid range.\<close>

lemma toISOString_known_values:
  "toISOString 0 = Inr ''1970-01-01T00:00:00.000Z''"
  "toISOString (- 1) = Inr ''1969-12-31T23:59:59.999Z''"
  "toISOString 951782400000 = Inr ''2000-02-29T00:00:00.000Z''"
  "toISOString 4107542400000 = Inr ''2100-03-01T00:00:00.000Z''"
  "toISOString 1710000000000 = Inr ''2024-03-09T16:00:00.000Z''"
  "toISOString 253402300799999 = Inr ''9999-12-31T23:59:59.999Z''"
  "toISOString 253402300800000 = Inr ''+010000-01-01T00:00:00.000Z''"
  "toISOString (- 62167219200001) = Inr ''-000001-12-31T23:59:59.999Z''"
  "toISOString 8640000000000000 = Inr ''+275760-09-13T00:00:00.000Z''"
  "toISOString (- 8640000000000000) = Inr ''-271821-04-20T00:00:00.000Z''"
  "toISOString 8640000000000001 = Inl RangeError"
  by code_simp+

lemma int_to_string_known_values:
  "int_to_string 42 = ''42''"
  "int_to_string 0 = ''0''"
  "int_to_string 1234567890123 = ''1234567890123''"
  "int_to_string (- 42) = ''-42''"
  by code_simp+




















section \<open>Properties of the folder provisioner\<close>

lemma ensure_loop_grows:
  "ensure_loop env cur fs v = (r, v') \<Longrightarrow> folders v \<subseteq> folders v'"
proof (induction fs arbitrary: cur v)
  case Nil
  then show ?case by simp
next
  case (Cons folder rest)
  show ?case
  proof (cases "cur @ folder \<in> folders v")
    case True
    with Cons.prems Cons.IH [of "cur @ folder @ ''/''" v] show ?thesis
      by (auto simp: Let_def split: if_splits)
  next
    case False
    with Cons.prems
      Cons.IH [of "cur @ folder @ ''/''" "v\<lparr>folders := insert (cur @ folder) (folders v),
                createFolder_calls := createFolder_calls v @ [cur @ folder]\<rparr>"]
    show ?thesis
      by (auto simp: Let_def split: if_splits)
  qed
qed

lemma ensure_loop_idempotent:
  "ensure_loop env cur fs v = (None, v') \<Longrightarrow> ensure_loop env cur fs v' = (None, v')"
proof (induction fs arbitrary: cur v)
  case Nil
  then show ?case by simp
next
  case (Cons folder rest)
  define p where "p = cur @ folder"
  from Cons.prems have nothrow: "\<not> exists_throws env p"
    by (auto simp: Let_def p_def split: if_splits)
  show ?case
  proof (cases "p \<in> folders v")
    case True
    with Cons.prems nothrow have run: "ensure_loop env (p @ ''/'') rest v = (None, v')"
      by (simp add: Let_def p_def)
    from ensure_loop_grows [OF run] True have "p \<in> folders v'" by blast
    with Cons.IH [OF run] nothrow show ?thesis by (simp add: Let_def p_def)
  next
    case False
    define v1 where "v1 = v\<lparr>folders := insert p (folders v),
                createFolder_calls := createFolder_calls v @ [p]\<rparr>"
    from Cons.prems nothrow False have run: "ensure_loop env (p @ ''/'') rest v1 = (None, v')"
      by (auto simp: Let_def p_def v1_def split: if_splits)
    from ensure_loop_grows [OF run] have "p \<in> folders v'" by (auto simp: v1_def)
    with Cons.IH [OF run] nothrow show ?thesis by (simp add: Let_def p_def)
  qed
qed

text \<open>
  C6. When \<open>ensureFolderExists\<close> succeeds on a path, a second call on the same path,
  run on the vault the first call left (where the folders it created exist),
  succeeds and leaves the vault as it is: it makes no \<open>createFolder\<close> call.
\<close>

theorem ensureFolderExists_idempotent:
  assumes "ensureFolderExists env path v = (None, v')"
  shows "ensureFolderExists env path v' = (None, v')
         \<and> createFolder_calls (snd (ensureFolderExists env path v')) = createFolder_calls v'"
  using ensure_loop_idempotent assms by (simp add: ensureFolderExists_def)

lemma first_run: "ensureFolderExists reliable_vault ''Telegram/notes'' empty_vault = (None, provisioned_vault)"
  by (simp add: ensureFolderExists_def reliable_vault_def empty_vault_def provisioned_vault_def Let_def)

theorem ensureFolderExists_idempotent_witness:
  "ensureFolderExists reliable_vault ''Telegram/notes'' empty_vault = (None, provisioned_vault)
   \<and> ensureFolderExists reliable_vault ''Telegram/notes'' provisioned_vault = (None, provisioned_vault)
   \<and> createFolder_calls (snd (ensureFolderExists reliable_vault ''Telegram/notes'' provisioned_vault))
       = [''Telegram'', ''Telegram/notes'']"
  using ensureFolderExists_idempotent [OF first_run] first_run
  by (simp add: provisioned_vault_def)

section \<open>Properties of the bot lifecycle\<close>





lemma saveSettings_restarts:
  "saveSettings calm_env tokenless_plugin = startBot calm_env tokenless_plugin"
  by (simp add: saveSettings_def tokenless_plugin_def running_plugin_def)


text \<open>
  C4. When \<open>stopPolling\<close> rejects, \<open>stopBot\<close> reports the error and leaves \<open>bot\<close> set:
  the assignment \<open>this.bot = null\<close> stands after the \<open>await\<close> inside the \<open>try\<close> block and
  is skipped. The plugin is still running after the call.
\<close>

theorem stopBot_close_failure_stays_running:
  "session_of running_plugin = Running
   \<and> bot (stopBot close_fails_env running_plugin) = Some 0
   \<and> session_of (stopBot close_fails_env running_plugin) = Running
   \<and> notices (stopBot close_fails_env running_plugin) = [''Error stopping bot'']"
  by (simp add: running_plugin_def close_fails_env_def stopBot_def notice_def session_of_def)

lemma stopBot_rejected_keeps_bot:
  assumes "stopPolling_rejects env"
  shows "bot (stopBot env s) = bot s" and "polling (stopBot env s) = polling s"
  using assms by (simp_all add: stopBot_def notice_def split: option.split)

text \<open>
  A consequence in \<open>startBot\<close>, which goes on after a failed \<open>stopBot\<close>: the old
  connection is still polling when the new one is opened.
\<close>

lemma startBot_close_failure_two_connections:
  "map session_of (startBot_trace close_fails_env running_plugin) = [Running, Running, Running]
   \<and> polling (startBot close_fails_env running_plugin) = [0, 1]
   \<and> bot (startBot close_fails_env running_plugin) = Some 1"
  by (simp add: startBot_trace_def running_plugin_def close_fails_env_def startBot_def stopBot_def
      start_after_stop_def notice_def session_of_def DEFAULT_SETTINGS_def truthy_str_def
      ensureFolderExists_def reliable_vault_def Let_def setupBotCommands_def)

section \<open>Properties of the command triggers\<close>

lemma regexp_search_sublist: "regexp_search pat s = sublist pat s"
  by (induction s) (simp_all add: sublist_Cons_right)

lemma regexp_search_iff: "regexp_search pat s \<longleftrightarrow> (\<exists>pre post. s = pre @ pat @ post)"
  by (simp add: regexp_search_sublist sublist_def)

lemma onText_fires_iff:
  assumes "pat \<noteq> []"
  shows "onText_fires pat msg \<longleftrightarrow> (\<exists>pre post. msg_text msg = Some (pre @ pat @ post))"
proof (cases "msg_text msg")
  case None
  then show ?thesis by (simp add: onText_fires_def truthy_str_def)
next
  case (Some t)
  have "t \<noteq> []" if "t = pre @ pat @ post" for pre post
    using that assms by simp
  then show ?thesis
    using Some by (auto simp: onText_fires_def truthy_str_def regexp_search_iff)
qed

text \<open>
  C9, as the code has it. Each of the three triggers fires exactly when the message
  has a text in which the command string occurs somewhere, with the same letter case:
  at the start, later in the text, or as part of a longer token.
\<close>

theorem command_trigger_fires_on_occurrence:
  "(onText_fires ''/help'' msg \<longleftrightarrow> (\<exists>pre post. msg_text msg = Some (pre @ ''/help'' @ post)))
   \<and> (onText_fires ''/status'' msg \<longleftrightarrow> (\<exists>pre post. msg_text msg = Some (pre @ ''/status'' @ post)))
   \<and> (onText_fires ''/notes'' msg \<longleftrightarrow> (\<exists>pre post. msg_text msg = Some (pre @ ''/notes'' @ post)))
   \<and> command_patterns = [''/help'', ''/status'', ''/notes'']"
  using onText_fires_iff [of "''/help''" msg] onText_fires_iff [of "''/status''" msg]
    onText_fires_iff [of "''/notes''" msg]
  by (simp add: command_patterns_def)

text \<open>
  The claim C9 as stated restricts a trigger to texts whose leading token is the
  command. The trigger \<open>/help\<close> also fires on \<open>say /help\<close> and on \<open>/helpme\<close>.
\<close>

theorem trigger_fires_beyond_leading_token:
  "onText_fires ''/help'' (text_message ''say /help'')
   \<and> leading_token ''say /help'' \<noteq> ''/help''
   \<and> onText_fires ''/help'' (text_message ''/helpme'')
   \<and> leading_token ''/helpme'' \<noteq> ''/help''"
  by (simp add: onText_fires_def text_message_def truthy_str_def leading_token_def)

section \<open>Properties of the settings merge\<close>

text \<open>
  C8, as the code has it. Every top-level field absent from the stored data has its
  default value, and every top-level field present in the stored data has the stored
  value. The merge is not recursive: a stored \<open>templates\<close> object is kept as a whole,
  so each of its roles is what the stored object holds, also when that is nothing.
\<close>

theorem loadSettings_shallow_merge:
  "get_prop (loadSettings None) k = get_prop (settings_object DEFAULT_SETTINGS) k
   \<and> get_prop (loadSettings (Some stored)) k
       = (case get_prop stored k of
            Some v \<Rightarrow> Some v
          | None \<Rightarrow> get_prop (settings_object DEFAULT_SETTINGS) k)
   \<and> get_nested (loadSettings (Some (stored(''templates'' \<mapsto> JObject ts)))) ''templates'' role
       = get_prop ts role"
  by (simp add: loadSettings_def Object_assign_def get_prop_def get_nested_def map_add_def
      split: option.split)

text \<open>
  The claim C8 as stated gives a template role missing from a stored template set
  its default. With a stored template set that holds only the title, the photo
  template is undefined after loading.
\<close>

theorem stored_templates_lose_defaults:
  "get_nested stored_title_only ''templates'' ''photoTemplate'' = None
   \<and> get_nested (loadSettings (Some stored_title_only)) ''templates'' ''photoTemplate'' = None
   \<and> get_nested (settings_object DEFAULT_SETTINGS) ''templates'' ''photoTemplate''
       = Some (JString (photoTemplate DEFAULT_TEMPLATES))
   \<and> get_nested (loadSettings (Some stored_title_only)) ''templates'' ''photoTemplate''
       \<noteq> get_nested (settings_object DEFAULT_SETTINGS) ''templates'' ''photoTemplate''"
  by (simp add: loadSettings_def Object_assign_def get_prop_def get_nested_def map_add_def
      stored_title_only_def settings_object_def templates_object_def DEFAULT_SETTINGS_def)

end
